theory Spec2Isabelle
  imports Complex_Main "HOL-Library.Word" "HOL-Library.AList" "HOL-Library.Log_Nat"
begin

unbundle bit_operations_syntax

section \<open>JavaScript values\<close>

text \<open>
  A JavaScript string is a sequence of UTF-16 code units; \<open>charCodeAt\<close> reads one of
  them. String literals of the source are written \<open>js ''...''\<close>.
\<close>

type_synonym jsstring = "16 word list"

definition js :: "string \<Rightarrow> jsstring" where
  "js s = map of_char s"

text \<open>
  An ISO-8601 time stamp (\<open>new Date().toISOString()\<close>) is modelled by the instant it
  denotes, in milliseconds since the epoch.
\<close>

type_synonym timestamp = int

text \<open>
  \<open>s.charCodeAt(pos)\<close>: the position is a number (\<open>None\<close> is NaN, which
  \<open>charCodeAt\<close> reads as position 0); the result is the code unit there, or NaN
  (\<open>None\<close>) out of range.
\<close>

definition charCodeAt :: "jsstring \<Rightarrow> nat option \<Rightarrow> 16 word option" where
  "charCodeAt s pos =
     (let k = (case pos of None \<Rightarrow> 0 | Some k \<Rightarrow> k)
      in if k < length s then Some (s ! k) else None)"

text \<open>\<open>i % n\<close> on non-negative integers: NaN when \<open>n\<close> is 0.\<close>

definition js_mod :: "nat \<Rightarrow> nat \<Rightarrow> nat option" where
  "js_mod i n = (if n = 0 then None else Some (i mod n))"

text \<open>\<open>x || 0\<close> on a code unit or NaN: NaN and 0 are falsy and give 0.\<close>

definition or_zero :: "16 word option \<Rightarrow> 16 word option" where
  "or_zero x = (case x of None \<Rightarrow> Some 0 | Some c \<Rightarrow> (if c = 0 then Some 0 else Some c))"

text \<open>The bitwise operators convert their operands with ToInt32: NaN becomes 0.\<close>

definition ToInt32 :: "16 word option \<Rightarrow> 32 word" where
  "ToInt32 x = (case x of None \<Rightarrow> 0 | Some c \<Rightarrow> ucast c)"

section \<open>token.ts\<close>

record RemoteConfig =
  token :: jsstring
  tokenCreatedAt :: timestamp
  tokenVersion :: int

text \<open>
  The file \<open>remote.json\<close> as \<open>loadRemoteConfig\<close> sees it: \<open>None\<close> when the file
  is absent, unreadable or not JSON (the source catches all three and returns null).
  \<open>mkdir\<close> and \<open>writeFile\<close> are taken to succeed.
\<close>

type_synonym disk = "RemoteConfig option"

definition TOKEN_BYTES :: nat where
  "TOKEN_BYTES = 32"

definition base64url_alphabet :: jsstring where
  "base64url_alphabet = js ''ABCDEFGHIJKLMNOPQRSTUVWXYZabcdefghijklmnopqrstuvwxyz0123456789-_''"

definition sextet :: "nat \<Rightarrow> 16 word" where
  "sextet n = base64url_alphabet ! (n mod 64)"

text \<open>\<open>Buffer.toString('base64url')\<close>: RFC 4648 section 5, without padding.\<close>

fun base64url :: "8 word list \<Rightarrow> jsstring" where
  "base64url (a # b # c # rest) =
     [sextet (unat a div 4),
      sextet ((unat a mod 4) * 16 + unat b div 16),
      sextet ((unat b mod 16) * 4 + unat c div 64),
      sextet (unat c mod 64)] @ base64url rest"
| "base64url [a, b] =
     [sextet (unat a div 4),
      sextet ((unat a mod 4) * 16 + unat b div 16),
      sextet ((unat b mod 16) * 4)]"
| "base64url [a] =
     [sextet (unat a div 4),
      sextet ((unat a mod 4) * 16)]"
| "base64url [] = []"

text \<open>
  \<open>generateToken\<close> takes the bytes that \<open>randomBytes(TOKEN_BYTES)\<close> returned,
  a list of length \<open>TOKEN_BYTES\<close>.
\<close>

definition generateToken :: "8 word list \<Rightarrow> jsstring" where
  "generateToken bytes = base64url bytes"

definition loadRemoteConfig :: "disk \<Rightarrow> RemoteConfig option" where
  "loadRemoteConfig d = d"

definition saveRemoteConfig :: "RemoteConfig \<Rightarrow> disk \<Rightarrow> disk" where
  "saveRemoteConfig config d = Some config"

text \<open>The test \<open>config?.token\<close>: a record is there and its token is not the empty string.\<close>

definition has_token :: "RemoteConfig option \<Rightarrow> bool" where
  "has_token config = (case config of None \<Rightarrow> False | Some c \<Rightarrow> token c \<noteq> [])"

text \<open>
  \<open>getOrCreateToken\<close>, given the random bytes and the clock reading it would use.
  The result is \<open>(token, isNew)\<close> and the file afterwards.
\<close>

definition getOrCreateToken :: "8 word list \<Rightarrow> timestamp \<Rightarrow> disk \<Rightarrow> (jsstring \<times> bool) \<times> disk" where
  "getOrCreateToken bytes now d =
     (let config = loadRemoteConfig d
      in if has_token config then ((token (the config), False), d)
         else
           let tok = generateToken bytes;
               newConfig = \<lparr>token = tok, tokenCreatedAt = now, tokenVersion = 1\<rparr>
           in ((tok, True), saveRemoteConfig newConfig d))"

text \<open>
  \<open>tokenVersion\<close> is a JavaScript number, a double. The model has its integer
  values, as an \<open>int\<close>. The sum of two numbers is the exact sum rounded to the
  nearest double, ties to the even significand of 53 bits: \<open>round_to_double\<close> is
  that rounding on an integer (below the overflow threshold of doubles, which the sum
  of a double and 1 never exceeds).
\<close>

definition round_to_double :: "int \<Rightarrow> int" where
  "round_to_double n =
     (let a = \<bar>n\<bar>;
          q = 2 ^ nat (bitlen a - 53);
          m = a div q;
          r = a mod q;
          m' = (if 2 * r < q then m
                else if 2 * r > q then m + 1
                else if even m then m else m + 1)
      in sgn n * (m' * q))"

definition js_plus_one :: "int \<Rightarrow> int" where
  "js_plus_one v = round_to_double (v + 1)"

text \<open>\<open>existingConfig?.tokenVersion ?? 0\<close>\<close>

definition version_or_zero :: "RemoteConfig option \<Rightarrow> int" where
  "version_or_zero config = (case config of None \<Rightarrow> 0 | Some c \<Rightarrow> tokenVersion c)"

definition rotateToken :: "8 word list \<Rightarrow> timestamp \<Rightarrow> disk \<Rightarrow> jsstring \<times> disk" where
  "rotateToken bytes now d =
     (let existingConfig = loadRemoteConfig d;
          newToken = generateToken bytes;
          newConfig = \<lparr>token = newToken, tokenCreatedAt = now,
                       tokenVersion = js_plus_one (version_or_zero existingConfig)\<rparr>
      in (newToken, saveRemoteConfig newConfig d))"

text \<open>
  The two loops of \<open>validateToken\<close>. The loop state is \<open>result\<close> together with a
  count of the executions of the loop body, which the source does not keep; it is there
  so that the number of iterations can be stated.
\<close>

function mismatch_loop :: "jsstring \<Rightarrow> jsstring \<Rightarrow> nat \<Rightarrow> 32 word \<times> nat \<Rightarrow> 32 word \<times> nat" where
  "mismatch_loop storedToken providedToken i (result, n) =
     (if i < length storedToken
      then mismatch_loop storedToken providedToken (i + 1)
             (result OR
                (ToInt32 (charCodeAt storedToken (Some i)) XOR
                 ToInt32 (or_zero (charCodeAt providedToken (js_mod i (length providedToken))))),
              n + 1)
      else (result, n))"
  by pat_completeness auto
termination
  by (relation "measure (\<lambda>(s, p, i, r). length s - i)") auto

function compare_loop :: "jsstring \<Rightarrow> jsstring \<Rightarrow> nat \<Rightarrow> 32 word \<times> nat \<Rightarrow> 32 word \<times> nat" where
  "compare_loop storedToken providedToken i (result, n) =
     (if i < length storedToken
      then compare_loop storedToken providedToken (i + 1)
             (result OR
                (ToInt32 (charCodeAt storedToken (Some i)) XOR
                 ToInt32 (charCodeAt providedToken (Some i))),
              n + 1)
      else (result, n))"
  by pat_completeness auto
termination
  by (relation "measure (\<lambda>(s, p, i, r). length s - i)") auto

text \<open>
  \<open>validateToken_run\<close> is \<open>validateToken\<close> with the iteration count beside the
  returned boolean; \<open>validateToken\<close> is its first component.
\<close>

definition validateToken_run :: "disk \<Rightarrow> jsstring \<Rightarrow> bool \<times> nat" where
  "validateToken_run d providedToken =
     (let config = loadRemoteConfig d
      in if \<not> has_token config then (False, 0)
         else
           let storedToken = token (the config)
           in if length providedToken \<noteq> length storedToken
              then (let (result, n) = mismatch_loop storedToken providedToken 0 (0, 0)
                    in (False, n))
              else (let (result, n) = compare_loop storedToken providedToken 0 (0, 0)
                    in (result = 0, n)))"

definition validateToken :: "disk \<Rightarrow> jsstring \<Rightarrow> bool" where
  "validateToken d providedToken = fst (validateToken_run d providedToken)"

section \<open>types.ts\<close>

text \<open>
  What \<open>JSON.parse\<close> returns. An object is the list of its own properties, each key
  once. Numbers are never inspected by the server; they are kept as rationals.
\<close>

datatype json =
    JNull
  | JBool bool
  | JNumber rat
  | JString jsstring
  | JArray "json list"
  | JObject "(jsstring \<times> json) list"

datatype js_error = TypeError | Error jsstring

text \<open>
  The property read \<open>v.k\<close>, for the keys the server reads (\<open>type\<close>, \<open>id\<close>,
  \<open>token\<close>): a TypeError on null, the own property of an object, and undefined
  (\<open>None\<close>) on every other value, none of which has such a property.
\<close>

fun get_property :: "json \<Rightarrow> jsstring \<Rightarrow> js_error + json option" where
  "get_property JNull k = Inl TypeError"
| "get_property (JObject props) k = Inr (map_of props k)"
| "get_property v k = Inr None"

text \<open>
  A string of the source that is either a literal or a template literal
  \<open>`prefix${v}`\<close>, kept unrendered.
\<close>

datatype message_text = Lit jsstring | Template jsstring "json option"

text \<open>The fields of an outgoing message beside the envelope.\<close>

datatype payload =
    AuthResponse bool "jsstring option"
  | Pong
  | ServerStatus jsstring rat nat
  | ErrorPayload jsstring message_text

record WSMessage =
  msg_type :: jsstring
  msg_id :: "json option"
  msg_timestamp :: timestamp
  msg_data :: payload

record AuditLogEntry =
  entry_timestamp :: timestamp
  clientId :: jsstring
  action :: jsstring
  details :: "(jsstring \<times> json option) list option"
  success :: bool
  error :: "jsstring option"

record RemoteServerState =
  running :: bool
  state_port :: int
  host :: jsstring
  state_startedAt :: timestamp
  connectedClients :: nat
  pid :: int

section \<open>audit.ts\<close>

text \<open>
  Modelled from the spec: the audit logger (\<open>createAuditLogger\<close> and its methods
  \<open>logConnection\<close>, \<open>logServerEvent\<close>, \<open>logFailure\<close>, \<open>logAuth\<close>) is not among
  the sources. The spec has it append one entry per call, with the fields of the audit
  entry of its data model: connection events and server events with
  \<open>success = true\<close>, failures with \<open>success = false\<close>, the error text and the
  optional details, authentication with the outcome it is given. A write failure is
  swallowed, so a call never raises. Each function below gives the entry that its call
  appends; the action name of an authentication entry and the client identifier of a
  server event are not fixed by the spec and are chosen here.
\<close>

text \<open>Modelled from the spec: the entry of a connection event, \<open>connect\<close> or \<open>disconnect\<close>, with \<open>success = true\<close>.\<close>

definition logConnection :: "timestamp \<Rightarrow> jsstring \<Rightarrow> jsstring \<Rightarrow> AuditLogEntry" where
  "logConnection t cid event =
     \<lparr>entry_timestamp = t, clientId = cid, action = event, details = None,
      success = True, error = None\<rparr>"

text \<open>Modelled from the spec: the entry of a server event, \<open>start\<close> with the bind parameters and the process id or \<open>stop\<close>, with \<open>success = true\<close>.\<close>

definition logServerEvent ::
  "timestamp \<Rightarrow> jsstring \<Rightarrow> (jsstring \<times> json option) list option \<Rightarrow> AuditLogEntry" where
  "logServerEvent t event ds =
     \<lparr>entry_timestamp = t, clientId = js ''server'', action = event, details = ds,
      success = True, error = None\<rparr>"

text \<open>Modelled from the spec: the entry of a message-level failure, with \<open>success = false\<close>, the error text and the optional details.\<close>

definition logFailure ::
  "timestamp \<Rightarrow> jsstring \<Rightarrow> jsstring \<Rightarrow> jsstring \<Rightarrow> (jsstring \<times> json option) list option
     \<Rightarrow> AuditLogEntry" where
  "logFailure t cid act err ds =
     \<lparr>entry_timestamp = t, clientId = cid, action = act, details = ds,
      success = False, error = Some err\<rparr>"

text \<open>Modelled from the spec: the entry of an authentication attempt, with the outcome as \<open>success\<close> and never the secret.\<close>

definition logAuth :: "timestamp \<Rightarrow> jsstring \<Rightarrow> bool \<Rightarrow> jsstring option \<Rightarrow> AuditLogEntry" where
  "logAuth t cid ok err =
     \<lparr>entry_timestamp = t, clientId = cid, action = js ''auth'', details = None,
      success = ok, error = err\<rparr>"

section \<open>server.ts\<close>

text \<open>A socket object (\<open>ServerWebSocket\<close>) is known by its identity.\<close>

type_synonym ws = nat

record ClientState =
  id_client :: jsstring
  ip :: jsstring
  authenticated :: bool
  connectedAt :: timestamp

text \<open>An optional callback is modelled by whether it is there.\<close>

record RemoteServerOptions =
  port :: int
  hasToken :: bool
  onStart :: bool
  onStop :: bool
  onConnect :: bool
  onDisconnect :: bool

text \<open>\<open>Partial<RemoteServerOptions>\<close>, the argument of \<open>createRemoteServer\<close>.\<close>

record PartialOptions =
  opt_port :: "int option"
  opt_hasToken :: "bool option"
  opt_onStart :: bool
  opt_onStop :: bool
  opt_onConnect :: bool
  opt_onDisconnect :: bool

text \<open>The listening socket that \<open>Bun.serve\<close> returns.\<close>

record Server =
  listen_port :: int
  hostname :: jsstring

text \<open>
  The fields of the class \<open>RemoteServer\<close>. The registry \<open>clients\<close> is a JavaScript
  \<open>Map\<close>: an association list with each key once, in insertion order.
\<close>

record RemoteServer =
  server :: "Server option"
  clients :: "(ws \<times> ClientState) list"
  options :: RemoteServerOptions
  startedAt :: "timestamp option"

datatype notification =
    OnStart RemoteServerState
  | OnStop
  | OnConnect jsstring
  | OnDisconnect jsstring

text \<open>
  What the server acts on outside its own fields: the credential file, the audit log,
  the calls of \<open>ws.send\<close> and of \<open>ws.close\<close> in the order they were made, and the
  callbacks invoked. The source wraps \<open>ws.send\<close> and \<open>ws.close\<close> in
  \<open>try/catch\<close>, so neither call raises into the server; the traces record the call.
  One reading of the clock serves all entries written during one call.
\<close>

record world =
  disk :: disk
  audit :: "AuditLogEntry list"
  sent :: "(ws \<times> WSMessage) list"
  close_calls :: "ws list"
  notified :: "notification list"

text \<open>
  What one call draws from its environment: the value of \<open>generateMessageId()\<close> and
  the reading of the clock.
\<close>

record env =
  messageId :: jsstring
  now :: timestamp

definition createMessage :: "env \<Rightarrow> jsstring \<Rightarrow> payload \<Rightarrow> WSMessage" where
  "createMessage e ty data =
     \<lparr>msg_type = ty, msg_id = Some (JString (messageId e)), msg_timestamp = now e,
      msg_data = data\<rparr>"

definition send :: "ws \<Rightarrow> WSMessage \<Rightarrow> world \<Rightarrow> world" where
  "send s m w = w\<lparr>sent := sent w @ [(s, m)]\<rparr>"

definition append_audit :: "AuditLogEntry \<Rightarrow> world \<Rightarrow> world" where
  "append_audit entry w = w\<lparr>audit := audit w @ [entry]\<rparr>"

definition notify :: "bool \<Rightarrow> notification \<Rightarrow> world \<Rightarrow> world" where
  "notify callback n w = (if callback then w\<lparr>notified := notified w @ [n]\<rparr> else w)"

definition sendError :: "env \<Rightarrow> ws \<Rightarrow> jsstring \<Rightarrow> message_text \<Rightarrow> world \<Rightarrow> world" where
  "sendError e s code message w =
     send s (createMessage e (js ''error'') (ErrorPayload code message)) w"

definition sendPong :: "env \<Rightarrow> ws \<Rightarrow> json option \<Rightarrow> world \<Rightarrow> world" where
  "sendPong e s requestId w =
     (let response = createMessage e (js ''pong'') Pong
      in send s (response\<lparr>msg_id := requestId\<rparr>) w)"

definition sendStatus :: "env \<Rightarrow> ws \<Rightarrow> RemoteServer \<Rightarrow> world \<Rightarrow> world" where
  "sendStatus e s srv w =
     (let uptime = (case startedAt srv of
                      Some t \<Rightarrow> of_int (now e - t) / 1000
                    | None \<Rightarrow> 0)
      in send s (createMessage e (js ''server_status'')
                   (ServerStatus (js ''0.2.1'') uptime (length (clients srv)))) w)"

text \<open>\<open>`${clientState.id}@${clientState.ip}`\<close>\<close>

definition client_label :: "ClientState \<Rightarrow> jsstring" where
  "client_label cs = id_client cs @ js ''@'' @ ip cs"

text \<open>
  \<open>validateToken\<close> as \<open>handleAuth\<close> calls it, on \<open>message.token\<close> unchecked.
  With no credential the function returns false before it touches its argument. With a
  credential the stored token is a non-empty string, so one of the two loops runs its
  body, which calls \<open>providedToken.charCodeAt\<close>: on a string that is
  \<open>validateToken\<close> above; undefined and null raise a TypeError already at
  \<open>.length\<close>, and a boolean, number, array or object has no function \<open>charCodeAt\<close>,
  so the call raises a TypeError.
\<close>

definition validateToken_value :: "disk \<Rightarrow> json option \<Rightarrow> js_error + bool" where
  "validateToken_value d providedToken =
     (if \<not> has_token (loadRemoteConfig d) then Inr False
      else case providedToken of
             Some (JString s) \<Rightarrow> Inr (validateToken d s)
           | _ \<Rightarrow> Inl TypeError)"

text \<open>
  The handlers take the socket and the \<open>clientState\<close> object the registry holds for
  it; the assignment \<open>clientState.authenticated = true\<close> changes that object in the
  registry. A result \<open>Inl\<close> is the rejection of the promise the handler returns; all
  changes of a handler come after the last point where it can raise. Each call is
  modelled as one step: the interleaving of two calls at an \<open>await\<close> is not.
\<close>

definition handleAuth ::
  "env \<Rightarrow> ws \<Rightarrow> ClientState \<Rightarrow> json \<Rightarrow> RemoteServer \<Rightarrow> world
     \<Rightarrow> js_error + (RemoteServer \<times> world)" where
  "handleAuth e s clientState message srv w =
     (case get_property message (js ''token'') of
        Inl err \<Rightarrow> Inl err
      | Inr tok \<Rightarrow>
          (case validateToken_value (disk w) tok of
             Inl err \<Rightarrow> Inl err
           | Inr isValid \<Rightarrow>
               if isValid
               then Inr (srv\<lparr>clients :=
                              AList.map_entry s (\<lambda>c. c\<lparr>authenticated := True\<rparr>) (clients srv)\<rparr>,
                         append_audit (logAuth (now e) (client_label clientState) True None)
                           (send s (createMessage e (js ''auth_response'') (AuthResponse True None)) w))
               else Inr (srv,
                         append_audit
                           (logAuth (now e) (client_label clientState) False (Some (js ''Invalid token'')))
                           (send s (createMessage e (js ''auth_response'')
                                      (AuthResponse False (Some (js ''Invalid token'')))) w))))"

text \<open>
  \<open>handleMessage\<close> receives the frame as the outcome of \<open>JSON.parse(rawMessage)\<close>,
  its first statement: \<open>None\<close> when the parse throws, the parsed value otherwise.
\<close>

definition handleMessage ::
  "env \<Rightarrow> ws \<Rightarrow> ClientState \<Rightarrow> json option \<Rightarrow> RemoteServer \<Rightarrow> world
     \<Rightarrow> js_error + (RemoteServer \<times> world)" where
  "handleMessage e s clientState parsed srv w =
     (case parsed of
        None \<Rightarrow>
          Inr (srv,
               append_audit
                 (logFailure (now e) (client_label clientState) (js ''message_parse'')
                    (js ''Invalid JSON'') None)
                 (sendError e s (js ''INVALID_JSON'') (Lit (js ''Invalid JSON message'')) w))
      | Some message \<Rightarrow>
          (case get_property message (js ''type'') of
             Inl err \<Rightarrow> Inl err
           | Inr ty \<Rightarrow>
               if ty = Some (JString (js ''auth''))
               then handleAuth e s clientState message srv w
               else if ty = Some (JString (js ''ping''))
               then (case get_property message (js ''id'') of
                       Inl err \<Rightarrow> Inl err
                     | Inr requestId \<Rightarrow> Inr (srv, sendPong e s requestId w))
               else if \<not> authenticated clientState
               then Inr (srv,
                         append_audit
                           (logFailure (now e) (client_label clientState)
                              (js ''unauthorized_message'') (js ''Not authenticated'')
                              (Some [(js ''messageType'', ty)]))
                           (sendError e s (js ''NOT_AUTHENTICATED'')
                              (Lit (js ''Authentication required'')) w))
               else if ty = Some (JString (js ''status''))
               then Inr (srv, sendStatus e s srv w)
               else Inr (srv,
                         sendError e s (js ''UNKNOWN_MESSAGE'')
                           (Template (js ''Unknown message type: '') ty) w)))"

text \<open>
  The three handlers of \<open>websocketHandler\<close>. \<open>open_ws\<close> is given the address in
  \<open>ws.data\<close> (\<open>None\<close> when absent) and the value of \<open>generateClientId()\<close>.
\<close>

definition open_ws ::
  "timestamp \<Rightarrow> ws \<Rightarrow> jsstring option \<Rightarrow> jsstring \<Rightarrow> RemoteServer \<Rightarrow> world
     \<Rightarrow> RemoteServer \<times> world" where
  "open_ws t s data_ip newId srv w =
     (let clientIp = (case data_ip of None \<Rightarrow> js ''unknown'' | Some a \<Rightarrow> a);
          state = \<lparr>id_client = newId, ip = clientIp, authenticated = False, connectedAt = t\<rparr>
      in (srv\<lparr>clients := AList.update s state (clients srv)\<rparr>,
          notify (onConnect (options srv)) (OnConnect newId)
            (append_audit (logConnection t (newId @ js ''@'' @ clientIp) (js ''connect'')) w)))"

definition message_ws ::
  "env \<Rightarrow> ws \<Rightarrow> json option \<Rightarrow> RemoteServer \<Rightarrow> world \<Rightarrow> js_error + (RemoteServer \<times> world)" where
  "message_ws e s parsed srv w =
     (case map_of (clients srv) s of
        None \<Rightarrow> Inr (srv, w)
      | Some clientState \<Rightarrow> handleMessage e s clientState parsed srv w)"

definition close_ws :: "timestamp \<Rightarrow> ws \<Rightarrow> RemoteServer \<Rightarrow> world \<Rightarrow> RemoteServer \<times> world" where
  "close_ws t s srv w =
     (case map_of (clients srv) s of
        None \<Rightarrow> (srv, w)
      | Some clientState \<Rightarrow>
          (srv\<lparr>clients := AList.delete s (clients srv)\<rparr>,
           notify (onDisconnect (options srv)) (OnDisconnect (id_client clientState))
             (append_audit (logConnection t (client_label clientState) (js ''disconnect'')) w)))"

text \<open>
  \<open>start\<close>, given the process id and the clock reading. \<open>Bun.serve\<close> is taken to
  succeed in binding.
\<close>

definition start ::
  "int \<Rightarrow> timestamp \<Rightarrow> RemoteServer \<Rightarrow> world
     \<Rightarrow> js_error + (RemoteServerState \<times> RemoteServer \<times> world)" where
  "start process_pid t srv w =
     (if server srv \<noteq> None then Inl (Error (js ''Server is already running''))
      else
        let h = (if hasToken (options srv) then js ''0.0.0.0'' else js ''127.0.0.1'');
            srv' = srv\<lparr>server := Some \<lparr>listen_port = port (options srv), hostname = h\<rparr>,
                       startedAt := Some t\<rparr>;
            state = \<lparr>running = True, state_port = port (options srv), host = h,
                     state_startedAt = t, connectedClients = 0, pid = process_pid\<rparr>;
            w' = append_audit
                   (logServerEvent t (js ''start'')
                      (Some [(js ''port'', Some (JNumber (of_int (port (options srv))))),
                             (js ''host'', Some (JString h)),
                             (js ''pid'', Some (JNumber (of_int process_pid)))])) w
        in Inr (state, srv', notify (onStart (options srv)) (OnStart state) w'))"

text \<open>
  \<open>ws.close()\<close> as \<open>stop\<close> calls it: the call is recorded, and the runtime runs
  the \<open>close\<close> handler of the server inside the call, which logs the disconnect,
  notifies \<open>onDisconnect\<close> and deletes the socket from the registry.
\<close>

definition ws_close :: "timestamp \<Rightarrow> ws \<Rightarrow> RemoteServer \<Rightarrow> world \<Rightarrow> RemoteServer \<times> world" where
  "ws_close t s srv w = close_ws t s srv (w\<lparr>close_calls := close_calls w @ [s]\<rparr>)"

text \<open>
  The loop of \<open>stop\<close> over the registry. The iterator of a \<open>Map\<close> is live: it
  goes through the keys in insertion order and passes over an entry that has been
  deleted before it is reached. \<open>close_all\<close> is given the keys the registry has when
  the loop starts and consults the registry as it is at each step.
\<close>

fun close_all :: "timestamp \<Rightarrow> ws list \<Rightarrow> RemoteServer \<times> world \<Rightarrow> RemoteServer \<times> world" where
  "close_all t [] st = st"
| "close_all t (s # rest) (srv, w) =
     (if map_of (clients srv) s = None then close_all t rest (srv, w)
      else close_all t rest (ws_close t s srv w))"

definition stop :: "timestamp \<Rightarrow> RemoteServer \<Rightarrow> world \<Rightarrow> RemoteServer \<times> world" where
  "stop t srv w =
     (if server srv = None then (srv, w)
      else
        let (srv1, w1) = close_all t (map fst (clients srv)) (srv, w);
            srv' = srv1\<lparr>clients := [], server := None\<rparr>;
            w2 = append_audit (logServerEvent t (js ''stop'') None) w1
        in (srv', notify (onStop (options srv)) OnStop w2))"

definition getState :: "int \<Rightarrow> RemoteServer \<Rightarrow> RemoteServerState option" where
  "getState process_pid srv =
     (case (server srv, startedAt srv) of
        (Some listening, Some t) \<Rightarrow>
          Some \<lparr>running = True, state_port = port (options srv),
                host = (if hasToken (options srv) then js ''0.0.0.0'' else js ''127.0.0.1''),
                state_startedAt = t, connectedClients = length (clients srv),
                pid = process_pid\<rparr>
      | _ \<Rightarrow> None)"

text \<open>
  \<open>createRemoteServer\<close>, given the random bytes and the clock reading that
  \<open>getOrCreateToken\<close> would use. It builds the server and does not start it.
\<close>

definition createRemoteServer ::
  "8 word list \<Rightarrow> timestamp \<Rightarrow> PartialOptions \<Rightarrow> world \<Rightarrow> RemoteServer \<times> world" where
  "createRemoteServer bytes t opts w =
     (let ((tok, isNew), d') = getOrCreateToken bytes t (disk w);
          has = (\<not> isNew \<or> length tok > 0);
          serverOptions =
            \<lparr>port = (case opt_port opts of None \<Rightarrow> 7890 | Some p \<Rightarrow> p),
             hasToken = has,
             onStart = opt_onStart opts, onStop = opt_onStop opts,
             onConnect = opt_onConnect opts, onDisconnect = opt_onDisconnect opts\<rparr>
      in (\<lparr>server = None, clients = [], options = serverOptions, startedAt = None\<rparr>,
          w\<lparr>disk := d'\<rparr>))"

text \<open>
  The operations that reach a running server, as events; a handler that raises leaves
  the fields of the server and the traces as they were.
\<close>

datatype event =
    Open timestamp ws "jsstring option" jsstring
  | Message env ws "json option"
  | Close timestamp ws
  | Stop timestamp

fun step :: "event \<Rightarrow> RemoteServer \<times> world \<Rightarrow> RemoteServer \<times> world" where
  "step (Open t s data_ip newId) (srv, w) = open_ws t s data_ip newId srv w"
| "step (Message e s parsed) (srv, w) =
     (case message_ws e s parsed srv w of Inl err \<Rightarrow> (srv, w) | Inr r \<Rightarrow> r)"
| "step (Close t s) (srv, w) = close_ws t s srv w"
| "step (Stop t) (srv, w) = stop t srv w"

fun run :: "event list \<Rightarrow> RemoteServer \<times> world \<Rightarrow> RemoteServer \<times> world" where
  "run [] st = st"
| "run (ev # evs) st = run evs (step ev st)"

text \<open>The flag of the session on socket \<open>s\<close>: \<open>None\<close> when there is no such session.\<close>

definition session_flag :: "ws \<Rightarrow> RemoteServer \<times> world \<Rightarrow> bool option" where
  "session_flag s st = map_option authenticated (map_of (clients (fst st)) s)"

text \<open>
  \<open>opens s ev\<close>: the event is the opening of a connection on the socket \<open>s\<close>.
  The runtime makes a new socket object for every connection, so no \<open>Open\<close> event
  arrives for a socket that is in the registry.
\<close>

fun opens :: "ws \<Rightarrow> event \<Rightarrow> bool" where
  "opens s (Open t s' data_ip newId) = (s' = s)"
| "opens s ev = False"

section \<open>Example data\<close>

text \<open>
  A running server with one unauthenticated session on socket 0 and the stored secret
  \<open>secret\<close>; a world with no credential file; messages a client may send.
\<close>

definition example_env :: env where
  "example_env = \<lparr>messageId = js ''m1'', now = 1000\<rparr>"

definition example_client :: ClientState where
  "example_client = \<lparr>id_client = js ''c1'', ip = js ''10.0.0.5'', authenticated = False, connectedAt = 0\<rparr>"

definition example_options :: RemoteServerOptions where
  "example_options = \<lparr>port = 7890, hasToken = True, onStart = False, onStop = False,
                       onConnect = False, onDisconnect = False\<rparr>"

definition example_server :: RemoteServer where
  "example_server = \<lparr>server = Some \<lparr>listen_port = 7890, hostname = js ''0.0.0.0''\<rparr>,
                      clients = [(0, example_client)], options = example_options,
                      startedAt = Some 0\<rparr>"

definition example_world :: world where
  "example_world = \<lparr>disk = Some \<lparr>token = js ''secret'', tokenCreatedAt = 0, tokenVersion = 1\<rparr>,
                     audit = [], sent = [], close_calls = [], notified = []\<rparr>"

definition auth_message :: "jsstring \<Rightarrow> json" where
  "auth_message tok = JObject [(js ''type'', JString (js ''auth'')), (js ''id'', JString (js ''a1'')),
                               (js ''token'', JString tok)]"

definition status_message :: json where
  "status_message = JObject [(js ''type'', JString (js ''status'')), (js ''id'', JString (js ''s1''))]"

definition ping_message :: "jsstring \<Rightarrow> json" where
  "ping_message i = JObject [(js ''type'', JString (js ''ping'')), (js ''id'', JString i)]"

definition empty_world :: world where
  "empty_world = \<lparr>disk = None, audit = [], sent = [], close_calls = [], notified = []\<rparr>"

definition no_options :: PartialOptions where
  "no_options = \<lparr>opt_port = None, opt_hasToken = None, opt_onStart = False, opt_onStop = False,
                  opt_onConnect = False, opt_onDisconnect = False\<rparr>"

section \<open>Properties of token.ts\<close>

declare compare_loop.simps [simp del] mismatch_loop.simps [simp del]

lemma xor_zero_iff: "(x::32 word) XOR y = 0 \<longleftrightarrow> x = y"
  by (metis xor.right_neutral xor.assoc xor_self_eq xor.left_neutral)

lemma ucast_16_32_inj2: "(ucast (a::16 word) :: 32 word) = ucast b \<longleftrightarrow> a = b"
proof
  assume eq: "(ucast a :: 32 word) = ucast b"
  have up: "is_up (ucast :: 16 word \<Rightarrow> 32 word)" by (simp add: is_up)
  have "a = ucast (ucast a :: 32 word)" using ucast_up_ucast_id [OF up] by simp
  also have "\<dots> = ucast (ucast b :: 32 word)" using eq by simp
  also have "\<dots> = b" using ucast_up_ucast_id [OF up] by simp
  finally show "a = b" .
qed simp


lemma compare_loop_count:
  "snd (compare_loop s p i (r, n)) = n + (length s - i)"
proof (induction s p i "(r, n)" arbitrary: r n rule: compare_loop.induct)
  case (1 s p i r n)
  show ?case
  proof (cases "i < length s")
    case True
    then show ?thesis using 1 by (subst compare_loop.simps) simp
  next
    case False
    then show ?thesis by (subst compare_loop.simps) simp
  qed
qed

lemma mismatch_loop_count:
  "snd (mismatch_loop s p i (r, n)) = n + (length s - i)"
proof (induction s p i "(r, n)" arbitrary: r n rule: mismatch_loop.induct)
  case (1 s p i r n)
  show ?case
  proof (cases "i < length s")
    case True
    then show ?thesis using 1 by (subst mismatch_loop.simps) simp
  next
    case False
    then show ?thesis by (subst mismatch_loop.simps) simp
  qed
qed

lemma compare_loop_zero:
  "length p = length s \<Longrightarrow>
   fst (compare_loop s p i (r, n)) = 0 \<longleftrightarrow> r = 0 \<and> (\<forall>k. i \<le> k \<and> k < length s \<longrightarrow> s ! k = p ! k)"
proof (induction s p i "(r, n)" arbitrary: r n rule: compare_loop.induct)
  case (1 s p i r n)
  show ?case
  proof (cases "i < length s")
    case True
    have step: "(\<forall>k. i \<le> k \<and> k < length s \<longrightarrow> s ! k = p ! k) \<longleftrightarrow>
                s ! i = p ! i \<and> (\<forall>k. i + 1 \<le> k \<and> k < length s \<longrightarrow> s ! k = p ! k)"
      (is "?L \<longleftrightarrow> ?R")
    proof
      assume ?L then show ?R using True by auto
    next
      assume R: ?R
      show ?L
      proof (intro allI impI)
        fix k assume "i \<le> k \<and> k < length s"
        then show "s ! k = p ! k" using R by (cases "k = i") auto
      qed
    qed
    show ?thesis
      using True 1 step
      apply (subst compare_loop.simps)
      by (simp add: or_eq_0_iff xor_zero_iff ucast_16_32_inj2 charCodeAt_def ToInt32_def)
  next
    case False
    then show ?thesis by (subst compare_loop.simps) auto
  qed
qed

lemma compare_loop_eq:
  assumes "length p = length s"
  shows "compare_loop s p 0 (0, 0) = (r, n) \<Longrightarrow> (r = 0) = (p = s) \<and> n = length s"
proof -
  assume run: "compare_loop s p 0 (0, 0) = (r, n)"
  have "(r = 0) = (\<forall>k. k < length s \<longrightarrow> s ! k = p ! k)"
    using compare_loop_zero [OF assms, of 0 0 0] run by simp
  also have "\<dots> = (p = s)"
    using assms by (auto simp: list_eq_iff_nth_eq)
  finally have "(r = 0) = (p = s)" .
  moreover have "n = length s"
    using compare_loop_count [of s p 0 0 0] run by simp
  ultimately show ?thesis by simp
qed

lemma mismatch_loop_eq:
  "mismatch_loop s p 0 (0, 0) = (r, n) \<Longrightarrow> n = length s"
  using mismatch_loop_count [of s p 0 0 0] by simp

lemma validateToken_run_Some:
  "validateToken_run (Some cfg) c =
     (if token cfg = [] then (False, 0) else (c = token cfg, length (token cfg)))"
proof (cases "token cfg = []")
  case True
  then show ?thesis by (simp add: validateToken_run_def loadRemoteConfig_def has_token_def)
next
  case False
  show ?thesis
  proof (cases "length c = length (token cfg)")
    case True
    obtain r n where run: "compare_loop (token cfg) c 0 (0, 0) = (r, n)"
      by (cases "compare_loop (token cfg) c 0 (0, 0)")
    from compare_loop_eq [OF True run] False True run show ?thesis
      by (simp add: validateToken_run_def loadRemoteConfig_def has_token_def Let_def)
  next
    case neq: False
    obtain r n where run: "mismatch_loop (token cfg) c 0 (0, 0) = (r, n)"
      by (cases "mismatch_loop (token cfg) c 0 (0, 0)")
    from mismatch_loop_eq [OF run] False neq run show ?thesis
      by (auto simp: validateToken_run_def loadRemoteConfig_def has_token_def Let_def)
  qed
qed

lemma validateToken_run_None: "validateToken_run None c = (False, 0)"
  by (simp add: validateToken_run_def loadRemoteConfig_def has_token_def)

lemma validateToken_Some: "validateToken (Some cfg) c = (token cfg \<noteq> [] \<and> c = token cfg)"
  by (simp add: validateToken_def validateToken_run_Some)

lemma validateToken_None: "validateToken None c = False"
  by (simp add: validateToken_def validateToken_run_None)

lemma base64url_nonempty: "bytes \<noteq> [] \<Longrightarrow> base64url bytes \<noteq> []"
  by (induction bytes rule: base64url.induct) auto

lemma generateToken_nonempty: "length bytes = TOKEN_BYTES \<Longrightarrow> generateToken bytes \<noteq> []"
proof -
  assume "length bytes = TOKEN_BYTES"
  then have "bytes \<noteq> []" by (auto simp: TOKEN_BYTES_def)
  then show ?thesis by (simp add: generateToken_def base64url_nonempty)
qed

lemma base64url_length: "length (base64url bytes) = (4 * length bytes + 2) div 3"
  by (induction bytes rule: base64url.induct) auto


lemma base64url_alphabet_length: "length base64url_alphabet = 64"
  by (simp add: base64url_alphabet_def js_def)

lemma base64url_alphabet_distinct: "distinct base64url_alphabet"
  by (simp add: base64url_alphabet_def js_def)

lemma sextet_inj: "n < 64 \<Longrightarrow> m < 64 \<Longrightarrow> sextet n = sextet m \<Longrightarrow> n = m"
  using base64url_alphabet_distinct base64url_alphabet_length
  by (simp add: sextet_def nth_eq_iff_index_eq)

lemma byte_less: "unat (a :: 8 word) < 256"
proof -
  have "unat a < 2 ^ LENGTH(8)" by (rule unsigned_less)
  then show ?thesis by simp
qed

lemma round_to_double_exact: "\<bar>n\<bar> \<le> 2 ^ 53 \<Longrightarrow> round_to_double n = n"
proof (cases "\<bar>n\<bar> = 2 ^ 53")
  case True
  have "bitlen \<bar>n\<bar> \<le> 54" "54 \<le> bitlen \<bar>n\<bar>"
    using True by (simp_all add: bitlen_le_iff_power bitlen_ge_iff_power)
  then have "bitlen (\<bar>n\<bar>) = 54" by simp
  then show ?thesis using True
    by (simp add: round_to_double_def Let_def) (auto simp: sgn_if abs_if split: if_splits)
next
  case False
  assume "\<bar>n\<bar> \<le> 2 ^ 53"
  with False have lt: "\<bar>n\<bar> < 2 ^ 53" by simp
  have "bitlen \<bar>n\<bar> \<le> 53"
    using lt by (simp add: bitlen_le_iff_power)
  then have "nat (bitlen \<bar>n\<bar> - 53) = 0" by simp
  then show ?thesis
    by (simp add: round_to_double_def Let_def) (auto simp: sgn_if abs_if)
qed

lemma js_plus_one_at_limit: "js_plus_one (2 ^ 53) = 2 ^ 53"
proof -
  have "bitlen (2 ^ 53 + 1) \<le> 54" "54 \<le> bitlen (2 ^ 53 + 1)"
    by (simp_all add: bitlen_le_iff_power bitlen_ge_iff_power)
  then have b: "bitlen (2 ^ 53 + 1) = 54" by simp
  show ?thesis
    using b by (simp add: js_plus_one_def round_to_double_def Let_def)
qed

lemma js_plus_one_exact: "- (2 ^ 53) \<le> v \<Longrightarrow> v < 2 ^ 53 \<Longrightarrow> js_plus_one v = v + 1"
  by (simp add: js_plus_one_def round_to_double_exact)

lemma split_digits:
  fixes x y x' y' k :: nat
  assumes "x * k + y = x' * k + y'" "y < k" "y' < k"
  shows "x = x' \<and> y = y'"
proof -
  have "(x * k + y) div k = x" "(x' * k + y') div k = x'"
    using assms(2,3) by simp_all
  then have "x = x'" using assms(1) by simp
  then show ?thesis using assms(1) by simp
qed

lemma div_mod_eq: "(a::nat) div k = a' div k \<Longrightarrow> a mod k = a' mod k \<Longrightarrow> a = a'"
  by (metis div_mult_mod_eq)

lemma idx1: "(a::nat) < 256 \<Longrightarrow> a div 4 < 64" by simp
lemma idx16: "(b::nat) < 256 \<Longrightarrow> b div 16 < 16" by simp
lemma idx64: "(c::nat) < 256 \<Longrightarrow> c div 64 < 4" by simp
lemma idx2: "(x::nat) < 4 \<Longrightarrow> y < 16 \<Longrightarrow> x * 16 + y < 64" by simp
lemma idx3: "(x::nat) < 16 \<Longrightarrow> y < 4 \<Longrightarrow> x * 4 + y < 64" by simp

lemma decode3:
  fixes a b c a' b' c' :: nat
  assumes "a < 256" "b < 256" "c < 256" "a' < 256" "b' < 256" "c' < 256"
      and e1: "sextet (a div 4) = sextet (a' div 4)"
      and e2: "sextet ((a mod 4) * 16 + b div 16) = sextet ((a' mod 4) * 16 + b' div 16)"
      and e3: "sextet ((b mod 16) * 4 + c div 64) = sextet ((b' mod 16) * 4 + c' div 64)"
      and e4: "sextet (c mod 64) = sextet (c' mod 64)"
  shows "a = a' \<and> b = b' \<and> c = c'"
proof -
  have n1: "a div 4 = a' div 4"
    using e1 assms(1,4) by (intro sextet_inj idx1)
  have n2: "(a mod 4) * 16 + b div 16 = (a' mod 4) * 16 + b' div 16"
    using e2 assms(2,5) by (intro sextet_inj idx2 idx16) simp_all
  have n3: "(b mod 16) * 4 + c div 64 = (b' mod 16) * 4 + c' div 64"
    using e3 assms(3,6) by (intro sextet_inj idx3 idx64) simp_all
  have n4: "c mod 64 = c' mod 64"
    using e4 by (intro sextet_inj) simp_all
  from split_digits [OF n2] assms(2,5) have a4: "a mod 4 = a' mod 4" and b16: "b div 16 = b' div 16"
    by (simp_all add: idx16)
  from split_digits [OF n3] assms(3,6) have b4: "b mod 16 = b' mod 16" and c64: "c div 64 = c' div 64"
    by (simp_all add: idx64)
  show ?thesis
    using div_mod_eq [OF n1 a4] div_mod_eq [OF b16 b4] div_mod_eq [OF c64 n4] by simp
qed

lemma decode2:
  fixes a b a' b' :: nat
  assumes "a < 256" "b < 256" "a' < 256" "b' < 256"
      and e1: "sextet (a div 4) = sextet (a' div 4)"
      and e2: "sextet ((a mod 4) * 16 + b div 16) = sextet ((a' mod 4) * 16 + b' div 16)"
      and e3: "sextet ((b mod 16) * 4) = sextet ((b' mod 16) * 4)"
  shows "a = a' \<and> b = b'"
proof -
  have n1: "a div 4 = a' div 4"
    using e1 assms(1,3) by (intro sextet_inj idx1)
  have n2: "(a mod 4) * 16 + b div 16 = (a' mod 4) * 16 + b' div 16"
    using e2 assms(2,4) by (intro sextet_inj idx2 idx16) simp_all
  have "(b mod 16) * 4 + 0 < 64" "(b' mod 16) * 4 + 0 < 64"
    by (intro idx3; simp)+
  then have n3: "(b mod 16) * 4 = (b' mod 16) * 4"
    using e3 by (intro sextet_inj) simp_all
  from split_digits [OF n2] assms(2,4) have a4: "a mod 4 = a' mod 4" and b16: "b div 16 = b' div 16"
    by (simp_all add: idx16)
  from n3 have b4: "b mod 16 = b' mod 16" by simp
  show ?thesis
    using div_mod_eq [OF n1 a4] div_mod_eq [OF b16 b4] by simp
qed

lemma decode1:
  fixes a a' :: nat
  assumes "a < 256" "a' < 256"
      and e1: "sextet (a div 4) = sextet (a' div 4)"
      and e2: "sextet ((a mod 4) * 16) = sextet ((a' mod 4) * 16)"
  shows "a = a'"
proof -
  have n1: "a div 4 = a' div 4"
    using e1 assms(1,2) by (intro sextet_inj idx1)
  have "(a mod 4) * 16 + 0 < 64" "(a' mod 4) * 16 + 0 < 64"
    by (intro idx2; simp)+
  then have "(a mod 4) * 16 = (a' mod 4) * 16"
    using e2 by (intro sextet_inj) simp_all
  then have a4: "a mod 4 = a' mod 4" by simp
  show ?thesis using div_mod_eq [OF n1 a4] .
qed

lemma base64url_inj:
  "length xs = length ys \<Longrightarrow> base64url xs = base64url ys \<Longrightarrow> xs = ys"
proof (induction xs arbitrary: ys rule: base64url.induct)
  case (1 a b c rest)
  then obtain a' b' c' rest' where ys: "ys = a' # b' # c' # rest'"
    by (cases ys; cases "tl ys"; cases "tl (tl ys)") auto
  from "1.prems"(2) ys have
    e1: "sextet (unat a div 4) = sextet (unat a' div 4)" and
    e2: "sextet ((unat a mod 4) * 16 + unat b div 16) = sextet ((unat a' mod 4) * 16 + unat b' div 16)" and
    e3: "sextet ((unat b mod 16) * 4 + unat c div 64) = sextet ((unat b' mod 16) * 4 + unat c' div 64)" and
    e4: "sextet (unat c mod 64) = sextet (unat c' mod 64)" and
    er: "base64url rest = base64url rest'"
    by simp_all
  from decode3 [OF byte_less byte_less byte_less byte_less byte_less byte_less e1 e2 e3 e4]
  have "a = a' \<and> b = b' \<and> c = c'"
    by (simp add: word_unat_eq_iff)
  moreover have "rest = rest'"
    using "1.IH" [of rest'] "1.prems"(1) ys er by simp
  ultimately show ?case using ys by simp
next
  case (2 a b)
  then obtain a' b' where ys: "ys = [a', b']"
    by (cases ys; cases "tl ys") auto
  from "2.prems"(2) ys have
    e1: "sextet (unat a div 4) = sextet (unat a' div 4)" and
    e2: "sextet ((unat a mod 4) * 16 + unat b div 16) = sextet ((unat a' mod 4) * 16 + unat b' div 16)" and
    e3: "sextet ((unat b mod 16) * 4) = sextet ((unat b' mod 16) * 4)"
    by simp_all
  from decode2 [OF byte_less byte_less byte_less byte_less e1 e2 e3]
  show ?case using ys by (simp add: word_unat_eq_iff)
next
  case (3 a)
  then obtain a' where ys: "ys = [a']"
    by (cases ys) auto
  from "3.prems"(2) ys have
    e1: "sextet (unat a div 4) = sextet (unat a' div 4)" and
    e2: "sextet ((unat a mod 4) * 16) = sextet ((unat a' mod 4) * 16)"
    by simp_all
  from decode1 [OF byte_less byte_less e1 e2]
  show ?case using ys by (simp add: word_unat_eq_iff)
next
  case 4
  then show ?case by simp
qed

lemma generateToken_inj:
  "length bytes = TOKEN_BYTES \<Longrightarrow> length bytes0 = TOKEN_BYTES
     \<Longrightarrow> generateToken bytes = generateToken bytes0 \<Longrightarrow> bytes = bytes0"
  using base64url_inj [of bytes bytes0] by (simp add: generateToken_def)

text \<open>
  Claim C2. For every content of the credential file and every candidate string,
  \<open>validateToken\<close> returns true exactly when a credential exists (a record with a
  non-empty token) and the candidate equals the stored secret; with no credential, and
  for the empty candidate, it returns false. The model is a total function: every
  out-of-range \<open>charCodeAt\<close> and the NaN of \<open>i % 0\<close> are values, and no step
  of the function raises on a string; \<open>validateToken_value\<close>, which has the
  TypeError of the other JavaScript values, returns a boolean on every string.
\<close>

theorem validateToken_iff:
  "validateToken d candidate =
     (case d of None \<Rightarrow> False | Some cfg \<Rightarrow> token cfg \<noteq> [] \<and> candidate = token cfg)
   \<and> validateToken None candidate = False
   \<and> validateToken d [] = False
   \<and> validateToken_value d (Some (JString candidate)) = Inr (validateToken d candidate)"
  by (cases d)
    (auto simp: validateToken_Some validateToken_None validateToken_value_def
       loadRemoteConfig_def has_token_def)

text \<open>
  Claim C3, as stated: the comparison iterates over the longer of the two lengths.
  It does not: with the stored secret \<open>ab\<close> and the candidate \<open>abc\<close> the loop
  body runs twice, not three times.
\<close>

theorem validateToken_longer_candidate_counterexample:
  "snd (validateToken_run (Some \<lparr>token = js ''ab'', tokenCreatedAt = 0, tokenVersion = 1\<rparr>) (js ''abc''))
     \<noteq> max (length (js ''ab'')) (length (js ''abc''))"
  by (simp add: validateToken_run_Some js_def)

text \<open>
  Claim C3, amended: when a credential exists, the comparison loop runs exactly as many
  iterations as the stored secret has code units, for every candidate (whatever its
  length and wherever it first differs), and \<open>validateToken\<close> returns false on
  any length mismatch.
\<close>

theorem validateToken_iterations:
  "d = Some cfg \<and> token cfg \<noteq> [] \<longrightarrow>
     snd (validateToken_run d candidate) = length (token cfg)
     \<and> (length candidate \<noteq> length (token cfg) \<longrightarrow> fst (validateToken_run d candidate) = False)"
  by (auto simp: validateToken_run_Some)

theorem validateToken_iterations_witness:
  "snd (validateToken_run (Some \<lparr>token = js ''ab'', tokenCreatedAt = 0, tokenVersion = 1\<rparr>) (js ''xyz'')) = 2
   \<and> fst (validateToken_run (Some \<lparr>token = js ''ab'', tokenCreatedAt = 0, tokenVersion = 1\<rparr>) (js ''xyz'')) = False"
  using validateToken_iterations
    [of "Some \<lparr>token = js ''ab'', tokenCreatedAt = 0, tokenVersion = 1\<rparr>"
        "\<lparr>token = js ''ab'', tokenCreatedAt = 0, tokenVersion = 1\<rparr>" "js ''xyz''"]
  by (simp add: js_def)

text \<open>
  Claim C4, as stated: after a rotation the prior secret no longer validates and the
  version is the prior one plus 1. Neither holds for every state. When the 32 random
  bytes of the rotation are those the stored secret was generated from, the new secret
  is the prior one, which still validates; and at version \<open>2 ^ 53\<close> adding 1 to the
  JavaScript number gives \<open>2 ^ 53\<close> again.
\<close>

theorem rotateToken_same_draw_counterexample:
  "validateToken
     (snd (rotateToken (replicate 32 0) 1
             (Some \<lparr>token = generateToken (replicate 32 0), tokenCreatedAt = 0, tokenVersion = 1\<rparr>)))
     (generateToken (replicate 32 0))
   \<and> tokenVersion
        (the (snd (rotateToken (replicate 32 0) 1
                     (Some \<lparr>token = js ''old'', tokenCreatedAt = 0, tokenVersion = 2 ^ 53\<rparr>))))
       = 2 ^ 53"
proof -
  have len: "length (replicate 32 (0::8 word)) = TOKEN_BYTES" by (simp add: TOKEN_BYTES_def)
  have ne: "generateToken (replicate 32 0) \<noteq> []"
    using len by (rule generateToken_nonempty)
  show ?thesis
    using ne js_plus_one_at_limit
    by (simp add: rotateToken_def Let_def saveRemoteConfig_def loadRemoteConfig_def
        version_or_zero_def validateToken_Some)
qed

text \<open>
  Claim C4, amended: \<open>rotateToken\<close> returns the base64url text \<open>S2\<close> of the 32
  random bytes it drew and stores it. From then on \<open>validateToken\<close> is true of
  \<open>S2\<close> and false of every other string, so the prior secret is invalid unless the
  draw repeats it; in particular a prior secret generated from 32 other bytes is
  invalid. The stored version is 1 when there was no record, and otherwise the prior
  version plus 1 as a JavaScript number: exactly \<open>v + 1\<close> for an integer \<open>v\<close> with
  \<open>- 2 ^ 53 \<le> v < 2 ^ 53\<close>.
\<close>

theorem rotateToken_replaces_secret:
  "length bytes = TOKEN_BYTES \<longrightarrow>
     (\<exists>cfg'. rotateToken bytes t d = (generateToken bytes, Some cfg')
        \<and> token cfg' = generateToken bytes
        \<and> (\<forall>c. validateToken (Some cfg') c = (c = generateToken bytes))
        \<and> (\<forall>bytes0. length bytes0 = TOKEN_BYTES \<and> bytes0 \<noteq> bytes
              \<longrightarrow> \<not> validateToken (Some cfg') (generateToken bytes0))
        \<and> tokenVersion cfg' = (case d of None \<Rightarrow> 1 | Some cfg \<Rightarrow> js_plus_one (tokenVersion cfg))
        \<and> (\<forall>cfg. d = Some cfg \<and> - (2 ^ 53) \<le> tokenVersion cfg \<and> tokenVersion cfg < 2 ^ 53
              \<longrightarrow> tokenVersion cfg' = tokenVersion cfg + 1))"
proof
  assume len: "length bytes = TOKEN_BYTES"
  define cfg' where
    "cfg' = \<lparr>token = generateToken bytes, tokenCreatedAt = t,
             tokenVersion = js_plus_one (version_or_zero d)\<rparr>"
  have ne: "generateToken bytes \<noteq> []"
    using len by (rule generateToken_nonempty)
  have run: "rotateToken bytes t d = (generateToken bytes, Some cfg')"
    by (simp add: rotateToken_def Let_def saveRemoteConfig_def loadRemoteConfig_def cfg'_def)
  have tok: "token cfg' = generateToken bytes"
    by (simp add: cfg'_def)
  have valid: "\<forall>c. validateToken (Some cfg') c = (c = generateToken bytes)"
    using ne by (simp add: validateToken_Some tok)
  have other: "\<forall>bytes0. length bytes0 = TOKEN_BYTES \<and> bytes0 \<noteq> bytes
                 \<longrightarrow> \<not> validateToken (Some cfg') (generateToken bytes0)"
    using valid len generateToken_inj by blast
  have zero: "js_plus_one 0 = 1"
    using js_plus_one_exact [of 0] by simp
  have ver: "tokenVersion cfg' = (case d of None \<Rightarrow> 1 | Some cfg \<Rightarrow> js_plus_one (tokenVersion cfg))"
    using zero by (cases d) (simp_all add: cfg'_def version_or_zero_def)
  have exact: "\<forall>cfg. d = Some cfg \<and> - (2 ^ 53) \<le> tokenVersion cfg \<and> tokenVersion cfg < 2 ^ 53
                 \<longrightarrow> tokenVersion cfg' = tokenVersion cfg + 1"
    using ver js_plus_one_exact by auto
  show "\<exists>cfg'. rotateToken bytes t d = (generateToken bytes, Some cfg')
        \<and> token cfg' = generateToken bytes
        \<and> (\<forall>c. validateToken (Some cfg') c = (c = generateToken bytes))
        \<and> (\<forall>bytes0. length bytes0 = TOKEN_BYTES \<and> bytes0 \<noteq> bytes
              \<longrightarrow> \<not> validateToken (Some cfg') (generateToken bytes0))
        \<and> tokenVersion cfg' = (case d of None \<Rightarrow> 1 | Some cfg \<Rightarrow> js_plus_one (tokenVersion cfg))
        \<and> (\<forall>cfg. d = Some cfg \<and> - (2 ^ 53) \<le> tokenVersion cfg \<and> tokenVersion cfg < 2 ^ 53
              \<longrightarrow> tokenVersion cfg' = tokenVersion cfg + 1)"
    using run tok valid other ver exact by blast
qed

theorem rotateToken_replaces_secret_witness:
  "length (replicate 32 (0::8 word)) = TOKEN_BYTES
   \<and> length (replicate 32 (1::8 word)) = TOKEN_BYTES
   \<and> replicate 32 (1::8 word) \<noteq> replicate 32 0
   \<and> fst (rotateToken (replicate 32 0) 7
            (Some \<lparr>token = generateToken (replicate 32 1), tokenCreatedAt = 0, tokenVersion = 4\<rparr>))
       = generateToken (replicate 32 0)
   \<and> validateToken
        (snd (rotateToken (replicate 32 0) 7
                (Some \<lparr>token = generateToken (replicate 32 1), tokenCreatedAt = 0, tokenVersion = 4\<rparr>)))
        (generateToken (replicate 32 0))
   \<and> \<not> validateToken
        (snd (rotateToken (replicate 32 0) 7
                (Some \<lparr>token = generateToken (replicate 32 1), tokenCreatedAt = 0, tokenVersion = 4\<rparr>)))
        (generateToken (replicate 32 1))
   \<and> - (2 ^ 53) \<le> (4::int) \<and> (4::int) < 2 ^ 53
   \<and> tokenVersion
        (the (snd (rotateToken (replicate 32 0) 7
                (Some \<lparr>token = generateToken (replicate 32 1), tokenCreatedAt = 0, tokenVersion = 4\<rparr>))))
       = 5"
proof -
  have h1: "length (replicate 32 (0::8 word)) = TOKEN_BYTES" by (simp add: TOKEN_BYTES_def)
  have h2: "length (replicate 32 (1::8 word)) = TOKEN_BYTES" by (simp add: TOKEN_BYTES_def)
  have h3: "replicate 32 (1::8 word) \<noteq> replicate 32 0" by simp
  have h4: "- (2 ^ 53) \<le> (4::int) \<and> (4::int) < 2 ^ 53" by simp
  from rotateToken_replaces_secret
    [of "replicate 32 0" 7
        "Some \<lparr>token = generateToken (replicate 32 1), tokenCreatedAt = 0, tokenVersion = 4\<rparr>"]
  show ?thesis using h1 h2 h3 h4 by auto
qed

text \<open>
  Claim C8. When a credential exists, every call of \<open>getOrCreateToken\<close> returns
  the stored secret with \<open>isNew = false\<close> and leaves the file as it was. When none
  exists, the call generates a non-empty secret, stores it with version 1 and returns
  \<open>isNew = true\<close>; the returned secret validates at once, a second call returns it
  with \<open>isNew = false\<close>, and it validates after that call too.
\<close>

theorem getOrCreateToken_idempotent:
  "(has_token d \<longrightarrow> getOrCreateToken bytes t d = ((token (the d), False), d))
   \<and> (\<not> has_token d \<and> length bytes = TOKEN_BYTES \<longrightarrow>
        (\<exists>tok d'. getOrCreateToken bytes t d = ((tok, True), d')
           \<and> tok \<noteq> []
           \<and> d' = Some \<lparr>token = tok, tokenCreatedAt = t, tokenVersion = 1\<rparr>
           \<and> validateToken d' tok
           \<and> getOrCreateToken bytes2 t2 d' = ((tok, False), d')
           \<and> validateToken (snd (getOrCreateToken bytes2 t2 d')) tok))"
proof (intro conjI impI)
  assume "has_token d"
  then show "getOrCreateToken bytes t d = ((token (the d), False), d)"
    by (simp add: getOrCreateToken_def loadRemoteConfig_def)
next
  assume a: "\<not> has_token d \<and> length bytes = TOKEN_BYTES"
  define tok where "tok = generateToken bytes"
  define d' where "d' = Some \<lparr>token = tok, tokenCreatedAt = t, tokenVersion = 1\<rparr>"
  have ne: "tok \<noteq> []"
    using a generateToken_nonempty [of bytes] by (simp add: tok_def)
  have first: "getOrCreateToken bytes t d = ((tok, True), d')"
    using a by (simp add: getOrCreateToken_def loadRemoteConfig_def saveRemoteConfig_def
        Let_def tok_def d'_def)
  have ht: "has_token d'"
    using ne by (simp add: has_token_def d'_def)
  have second: "getOrCreateToken bytes2 t2 d' = ((tok, False), d')"
    using ht by (simp add: getOrCreateToken_def loadRemoteConfig_def d'_def)
  have valid: "validateToken d' tok"
    using ne by (simp add: d'_def validateToken_Some)
  show "\<exists>tok d'. getOrCreateToken bytes t d = ((tok, True), d')
           \<and> tok \<noteq> []
           \<and> d' = Some \<lparr>token = tok, tokenCreatedAt = t, tokenVersion = 1\<rparr>
           \<and> validateToken d' tok
           \<and> getOrCreateToken bytes2 t2 d' = ((tok, False), d')
           \<and> validateToken (snd (getOrCreateToken bytes2 t2 d')) tok"
    using first ne valid second d'_def by auto
qed

theorem getOrCreateToken_idempotent_witness:
  "has_token (Some \<lparr>token = js ''old'', tokenCreatedAt = 0, tokenVersion = 4\<rparr>)
   \<and> getOrCreateToken [] 9 (Some \<lparr>token = js ''old'', tokenCreatedAt = 0, tokenVersion = 4\<rparr>)
       = ((js ''old'', False), Some \<lparr>token = js ''old'', tokenCreatedAt = 0, tokenVersion = 4\<rparr>)
   \<and> \<not> has_token None \<and> length (replicate 32 (0::8 word)) = TOKEN_BYTES
   \<and> (\<exists>tok. getOrCreateToken (replicate 32 0) 9 None
         = ((tok, True), Some \<lparr>token = tok, tokenCreatedAt = 9, tokenVersion = 1\<rparr>) \<and> tok \<noteq> [])"
  using getOrCreateToken_idempotent [of "Some \<lparr>token = js ''old'', tokenCreatedAt = 0, tokenVersion = 4\<rparr>" "[]" 9 "[]" 0]
        getOrCreateToken_idempotent [of None "replicate 32 0" 9 "[]" 0]
  by (auto simp add: TOKEN_BYTES_def has_token_def js_def)

section \<open>Properties of server.ts\<close>

lemmas example_defs = example_env_def example_client_def example_options_def example_server_def
  example_world_def auth_message_def

lemmas handler_defs = message_ws_def handleMessage_def handleAuth_def validateToken_value_def
  sendError_def sendPong_def sendStatus_def send_def append_audit_def createMessage_def
  logFailure_def logAuth_def client_label_def loadRemoteConfig_def has_token_def

lemma js_auth_ne_ping: "js ''auth'' \<noteq> js ''ping''" by (simp add: js_def)

lemma validateToken_value_True:
  "validateToken_value d v = Inr True \<Longrightarrow> \<exists>tok. v = Some (JString tok) \<and> validateToken d tok"
  by (auto simp: validateToken_value_def split: if_splits option.splits json.splits)

lemma handleAuth_result:
  assumes "handleAuth e s cs message srv w = Inr (srv', w')"
  shows "(srv' = srv \<and> (\<forall>tok. get_property message (js ''token'') = Inr tok \<longrightarrow> validateToken_value (disk w) tok = Inr False))
       \<or> (srv' = srv\<lparr>clients := AList.map_entry s (\<lambda>c. c\<lparr>authenticated := True\<rparr>) (clients srv)\<rparr>
          \<and> (\<exists>tok. get_property message (js ''token'') = Inr (Some (JString tok)) \<and> validateToken (disk w) tok))"
  using assms
  by (auto simp: handleAuth_def split: sum.splits if_splits dest: validateToken_value_True)

lemma handleMessage_result:
  assumes "handleMessage e s cs parsed srv w = Inr (srv', w')"
  shows "srv' = srv
       \<or> (srv' = srv\<lparr>clients := AList.map_entry s (\<lambda>c. c\<lparr>authenticated := True\<rparr>) (clients srv)\<rparr>
          \<and> (\<exists>message tok. parsed = Some message
                \<and> get_property message (js ''type'') = Inr (Some (JString (js ''auth'')))
                \<and> get_property message (js ''token'') = Inr (Some (JString tok))
                \<and> validateToken (disk w) tok))"
  using assms
  by (auto simp: handleMessage_def split: option.splits sum.splits if_splits dest: handleAuth_result)

lemma flag_map_entry:
  "map_option authenticated (map_of (AList.map_entry s (\<lambda>c. c\<lparr>authenticated := True\<rparr>) al) s') =
     (if s' = s then map_option (\<lambda>_. True) (map_of al s) else map_option authenticated (map_of al s'))"
  by (simp add: map_of_map_entry split: option.splits)

lemma message_ws_flag:
  assumes "message_ws e s' parsed srv w = Inr (srv', w')"
  shows "session_flag s (srv', w') = session_flag s (srv, w)
       \<or> (session_flag s (srv, w) \<noteq> None \<and> session_flag s (srv', w') = Some True \<and> s' = s
          \<and> (\<exists>message tok. parsed = Some message
                \<and> get_property message (js ''type'') = Inr (Some (JString (js ''auth'')))
                \<and> get_property message (js ''token'') = Inr (Some (JString tok))
                \<and> validateToken (disk w) tok))"
proof (cases "map_of (clients srv) s'")
  case None
  with assms show ?thesis by (simp add: message_ws_def)
next
  case (Some cs)
  with assms have hm: "handleMessage e s' cs parsed srv w = Inr (srv', w')"
    by (simp add: message_ws_def)
  from handleMessage_result [OF hm] show ?thesis
  proof
    assume "srv' = srv"
    then show ?thesis by (simp add: session_flag_def)
  next
    assume r: "srv' = srv\<lparr>clients := AList.map_entry s' (\<lambda>c. c\<lparr>authenticated := True\<rparr>) (clients srv)\<rparr>
          \<and> (\<exists>message tok. parsed = Some message
                \<and> get_property message (js ''type'') = Inr (Some (JString (js ''auth'')))
                \<and> get_property message (js ''token'') = Inr (Some (JString tok))
                \<and> validateToken (disk w) tok)"
    show ?thesis
    proof (cases "s' = s")
      case True
      with r Some show ?thesis
        by (auto simp: session_flag_def flag_map_entry)
    next
      case False
      with r show ?thesis by (simp add: session_flag_def flag_map_entry)
    qed
  qed
qed

lemma close_ws_flag:
  "session_flag s (close_ws t s' srv w) = session_flag s (srv, w)
   \<or> session_flag s (close_ws t s' srv w) = None"
  by (cases "s' = s") (auto simp: close_ws_def session_flag_def delete_conv' split: option.splits)

lemma stop_flag:
  "session_flag s (stop t srv w) = session_flag s (srv, w)
   \<or> session_flag s (stop t srv w) = None"
  by (auto simp: stop_def session_flag_def Let_def split: prod.splits)

lemma open_ws_flag:
  "session_flag s (open_ws t s' data_ip newId srv w) =
     (if s' = s then Some False else session_flag s (srv, w))"
  by (simp add: open_ws_def session_flag_def Let_def update_conv')

lemma step_flag:
  assumes "\<not> opens s ev"
  shows "session_flag s (step ev st) = session_flag s st
       \<or> session_flag s (step ev st) = None
       \<or> (session_flag s st \<noteq> None \<and> session_flag s (step ev st) = Some True
          \<and> (\<exists>e message tok. ev = Message e s (Some message)
                \<and> get_property message (js ''type'') = Inr (Some (JString (js ''auth'')))
                \<and> get_property message (js ''token'') = Inr (Some (JString tok))
                \<and> validateToken (disk (snd st)) tok))"
proof (cases st)
  case (Pair srv w)
  show ?thesis
  proof (cases ev)
    case (Open t s' data_ip newId)
    with assms Pair show ?thesis by (simp add: open_ws_flag)
  next
    case (Message e s' parsed)
    show ?thesis
    proof (cases "message_ws e s' parsed srv w")
      case (Inl err)
      with Message Pair show ?thesis by simp
    next
      case (Inr r)
      obtain srv' w' where r: "r = (srv', w')" by (cases r)
      from message_ws_flag [of e s' parsed srv w srv' w' s] Inr r Message Pair
      show ?thesis by auto
    qed
  next
    case (Close t s')
    with Pair close_ws_flag [of s t s' srv w] show ?thesis by auto
  next
    case (Stop t)
    with Pair stop_flag [of s t srv w] show ?thesis by auto
  qed
qed

lemma step_keeps_authenticated:
  "\<not> opens s ev \<Longrightarrow> session_flag s st \<noteq> Some False \<Longrightarrow> session_flag s (step ev st) \<noteq> Some False"
  using step_flag [of s ev st] by auto

lemma run_keeps_authenticated:
  "\<forall>ev \<in> set evs. \<not> opens s ev \<Longrightarrow> session_flag s st \<noteq> Some False
     \<Longrightarrow> session_flag s (run evs st) \<noteq> Some False"
proof (induction evs arbitrary: st)
  case Nil
  then show ?case by simp
next
  case (Cons ev evs)
  then show ?case using step_keeps_authenticated [of s ev st] by simp
qed

lemma run_append: "run (evs1 @ evs2) st = run evs2 (run evs1 st)"
  by (induction evs1 arbitrary: st) simp_all

lemma failed_auth_flag:
  assumes "session_flag s (srv, w) = Some False"
      and "get_property message (js ''type'') = Inr (Some (JString (js ''auth'')))"
      and "get_property message (js ''token'') = Inr tok"
      and "validateToken_value (disk w) tok \<noteq> Inr True"
  shows "session_flag s (step (Message e s (Some message)) (srv, w)) = Some False"
proof -
  from assms(1) obtain cs where cs: "map_of (clients srv) s = Some cs"
    by (auto simp: session_flag_def)
  have "handleMessage e s cs (Some message) srv w = handleAuth e s cs message srv w"
    using assms(2) by (simp add: handleMessage_def)
  moreover have "\<And>r. handleAuth e s cs message srv w = Inr r \<Longrightarrow> fst r = srv"
    using assms(3,4) by (auto simp: handleAuth_def split: sum.splits if_splits)
  ultimately show ?thesis
    using cs assms(1)
    by (cases "handleAuth e s cs message srv w") (auto simp: message_ws_def session_flag_def)
qed

lemma delete_head_distinct:
  "s \<notin> fst ` set cl \<Longrightarrow> AList.delete s ((s, cs) # cl) = cl"
  by (simp add: AList.delete_eq) (induction cl, auto)

lemma close_all_registry:
  "distinct (map fst cl) \<Longrightarrow> clients srv = cl \<Longrightarrow>
   close_all t (map fst cl) (srv, w) =
     (srv\<lparr>clients := []\<rparr>,
      w\<lparr>close_calls := close_calls w @ map fst cl,
        audit := audit w @
          map (\<lambda>(s, cs). logConnection t (client_label cs) (js ''disconnect'')) cl,
        notified := notified w @
          (if onDisconnect (options srv)
           then map (\<lambda>(s, cs). OnDisconnect (id_client cs)) cl else [])\<rparr>)"
proof (induction cl arbitrary: srv w)
  case Nil
  then show ?case by simp
next
  case (Cons p cl)
  obtain s cs where p: "p = (s, cs)" by (cases p)
  from Cons.prems p have notin: "s \<notin> fst ` set cl" and dist: "distinct (map fst cl)"
    by auto
  have look: "map_of (clients srv) s = Some cs"
    using Cons.prems(2) p by simp
  define w1 where
    "w1 = notify (onDisconnect (options srv)) (OnDisconnect (id_client cs))
            (append_audit (logConnection t (client_label cs) (js ''disconnect''))
               (w\<lparr>close_calls := close_calls w @ [s]\<rparr>))"
  have step1: "ws_close t s srv w = (srv\<lparr>clients := cl\<rparr>, w1)"
    using look Cons.prems(2) p delete_head_distinct [OF notin, of cs]
    by (simp add: ws_close_def close_ws_def w1_def)
  have "close_all t (map fst (p # cl)) (srv, w) = close_all t (map fst cl) (srv\<lparr>clients := cl\<rparr>, w1)"
    using look step1 p by simp
  also have "\<dots> =
     (srv\<lparr>clients := cl\<rparr>\<lparr>clients := []\<rparr>,
      w1\<lparr>close_calls := close_calls w1 @ map fst cl,
         audit := audit w1 @
           map (\<lambda>(s, cs). logConnection t (client_label cs) (js ''disconnect'')) cl,
         notified := notified w1 @
           (if onDisconnect (options (srv\<lparr>clients := cl\<rparr>))
            then map (\<lambda>(s, cs). OnDisconnect (id_client cs)) cl else [])\<rparr>)"
    using Cons.IH [OF dist, of "srv\<lparr>clients := cl\<rparr>" w1] by simp
  finally show ?case
    by (simp add: w1_def p notify_def append_audit_def)
qed

lemma open_ws_distinct:
  "distinct (map fst (clients srv))
     \<Longrightarrow> distinct (map fst (clients (fst (open_ws t s data_ip newId srv w))))"
  by (simp add: open_ws_def Let_def distinct_update)

text \<open>Every event leaves the registry with each socket once.\<close>

lemma step_distinct:
  assumes "distinct (map fst (clients (fst st)))"
  shows "distinct (map fst (clients (fst (step ev st))))"
proof (cases st)
  case (Pair srv w)
  with assms have d: "distinct (map fst (clients srv))" by simp
  show ?thesis
  proof (cases ev)
    case (Open t s data_ip newId)
    with Pair d show ?thesis by (simp add: open_ws_distinct)
  next
    case (Message e s parsed)
    show ?thesis
    proof (cases "message_ws e s parsed srv w")
      case (Inl err)
      with Message Pair d show ?thesis by simp
    next
      case (Inr r)
      obtain srv' w' where r: "r = (srv', w')" by (cases r)
      have "clients srv' = clients srv
            \<or> clients srv' = AList.map_entry s (\<lambda>c. c\<lparr>authenticated := True\<rparr>) (clients srv)"
        using Inr r
        by (auto simp: message_ws_def split: option.splits dest: handleMessage_result)
      then have "distinct (map fst (clients srv'))"
        using d by (auto simp: distinct_map_entry)
      with Inr r Message Pair show ?thesis by simp
    qed
  next
    case (Close t s)
    with Pair d show ?thesis
      by (auto simp: close_ws_def distinct_delete split: option.splits)
  next
    case (Stop t)
    with Pair d show ?thesis
      by (auto simp: stop_def Let_def split: prod.splits)
  qed
qed

lemma createRemoteServer_result:
  assumes "length bytes = TOKEN_BYTES"
  shows "\<exists>srv1 w1. createRemoteServer bytes t0 opts w0 = (srv1, w1)
           \<and> hasToken (options srv1) \<and> has_token (disk w1) \<and> server srv1 = None"
proof (cases "has_token (disk w0)")
  case True
  then show ?thesis
    by (simp add: createRemoteServer_def getOrCreateToken_def loadRemoteConfig_def Let_def)
next
  case False
  have ne: "generateToken bytes \<noteq> []"
    using assms by (rule generateToken_nonempty)
  with False show ?thesis
    by (simp add: createRemoteServer_def getOrCreateToken_def loadRemoteConfig_def
        saveRemoteConfig_def has_token_def Let_def)
qed

lemma start_result:
  assumes "server srv = None"
  shows "\<exists>state srv' w'. start p t srv w = Inr (state, srv', w')
           \<and> host state = (if hasToken (options srv) then js ''0.0.0.0'' else js ''127.0.0.1'')
           \<and> server srv' = Some \<lparr>listen_port = port (options srv), hostname = host state\<rparr>"
  using assms by (simp add: start_def Let_def)

text \<open>
  Claim C1, as stated: a server built by \<open>createRemoteServer\<close> with no credential
  on record, and then started, binds to loopback only. It does not:
  \<open>createRemoteServer\<close> first calls \<open>getOrCreateToken\<close>, which creates the
  credential, and sets \<open>hasToken\<close> to true because the new secret is not empty; the
  server then binds to \<open>0.0.0.0\<close>.
\<close>

theorem createRemoteServer_binds_all_counterexample:
  "disk empty_world = None
   \<and> (case createRemoteServer (replicate 32 0) 0 no_options empty_world of
        (srv1, w1) \<Rightarrow>
          (case start 4242 1 srv1 w1 of
             Inl err \<Rightarrow> False
           | Inr (state, srv', w') \<Rightarrow>
               host state = js ''0.0.0.0'' \<and> host state \<noteq> js ''127.0.0.1''))"
proof -
  have len: "length (replicate 32 (0::8 word)) = TOKEN_BYTES" by (simp add: TOKEN_BYTES_def)
  obtain srv1 w1 where c: "createRemoteServer (replicate 32 0) 0 no_options empty_world = (srv1, w1)"
    and h: "hasToken (options srv1)" and s: "server srv1 = None"
    using createRemoteServer_result [OF len, of 0 no_options empty_world] by auto
  obtain state srv' w' where st: "start 4242 1 srv1 w1 = Inr (state, srv', w')"
    and ho: "host state = js ''0.0.0.0''"
    using start_result [OF s, of 4242 1 w1] h by auto
  have "js ''0.0.0.0'' \<noteq> js ''127.0.0.1''" by (simp add: js_def)
  with c st ho show ?thesis by (simp add: empty_world_def)
qed

text \<open>
  Claim C1, amended: \<open>start\<close> on a server that is not running binds by the
  \<open>hasToken\<close> option the server was built with, and does not read the credential
  file: \<open>127.0.0.1\<close> when the option is false, \<open>0.0.0.0\<close> when it is true. A
  server built by \<open>createRemoteServer\<close> has a credential on record from then on
  (one is created when there was none) and \<open>hasToken\<close> true, so its start binds to
  \<open>0.0.0.0\<close>.
\<close>

theorem start_binds_by_hasToken:
  "(server srv = None \<longrightarrow>
      (\<exists>state srv' w'. start p t srv w = Inr (state, srv', w')
         \<and> host state = (if hasToken (options srv) then js ''0.0.0.0'' else js ''127.0.0.1'')
         \<and> server srv' = Some \<lparr>listen_port = port (options srv), hostname = host state\<rparr>))
   \<and> (length bytes = TOKEN_BYTES \<longrightarrow>
      (\<exists>srv1 w1. createRemoteServer bytes t0 opts w0 = (srv1, w1)
         \<and> has_token (disk w1) \<and> hasToken (options srv1)
         \<and> (\<exists>state srv' w'. start p t srv1 w1 = Inr (state, srv', w')
               \<and> host state = js ''0.0.0.0''
               \<and> server srv' = Some \<lparr>listen_port = port (options srv1), hostname = js ''0.0.0.0''\<rparr>)))"
proof (intro conjI impI)
  assume "server srv = None"
  then show "\<exists>state srv' w'. start p t srv w = Inr (state, srv', w')
         \<and> host state = (if hasToken (options srv) then js ''0.0.0.0'' else js ''127.0.0.1'')
         \<and> server srv' = Some \<lparr>listen_port = port (options srv), hostname = host state\<rparr>"
    by (rule start_result)
next
  assume len: "length bytes = TOKEN_BYTES"
  obtain srv1 w1 where c: "createRemoteServer bytes t0 opts w0 = (srv1, w1)"
    and h: "hasToken (options srv1)" and d: "has_token (disk w1)" and s: "server srv1 = None"
    using createRemoteServer_result [OF len, of t0 opts w0] by auto
  obtain state srv' w' where st: "start p t srv1 w1 = Inr (state, srv', w')"
    and ho: "host state = js ''0.0.0.0''"
    and se: "server srv' = Some \<lparr>listen_port = port (options srv1), hostname = host state\<rparr>"
    using start_result [OF s, of p t w1] h by auto
  show "\<exists>srv1 w1. createRemoteServer bytes t0 opts w0 = (srv1, w1)
         \<and> has_token (disk w1) \<and> hasToken (options srv1)
         \<and> (\<exists>state srv' w'. start p t srv1 w1 = Inr (state, srv', w')
               \<and> host state = js ''0.0.0.0''
               \<and> server srv' = Some \<lparr>listen_port = port (options srv1), hostname = js ''0.0.0.0''\<rparr>)"
    using c h d st ho se by auto
qed

theorem start_binds_by_hasToken_witness:
  "server (example_server\<lparr>server := None, options := example_options\<lparr>hasToken := False\<rparr>\<rparr>) = None
   \<and> (\<exists>state srv' w'.
          start 4242 1 (example_server\<lparr>server := None, options := example_options\<lparr>hasToken := False\<rparr>\<rparr>)
            example_world = Inr (state, srv', w')
          \<and> host state = js ''127.0.0.1'')
   \<and> length (replicate 32 (0::8 word)) = TOKEN_BYTES
   \<and> (\<exists>srv1 w1. createRemoteServer (replicate 32 0) 0 no_options empty_world = (srv1, w1)
          \<and> has_token (disk w1) \<and> hasToken (options srv1))"
  using start_binds_by_hasToken
    [of "example_server\<lparr>server := None, options := example_options\<lparr>hasToken := False\<rparr>\<rparr>"
        4242 1 example_world "replicate 32 0" 0 no_options empty_world]
  by (auto simp: TOKEN_BYTES_def example_defs)

text \<open>
  Claim C5. For a session that is not authenticated and a parsed message whose
  \<open>type\<close> is neither \<open>auth\<close> nor \<open>ping\<close>, the server sends to that socket
  one \<open>error\<close> message with code \<open>NOT_AUTHENTICATED\<close>, appends exactly one audit
  entry, with \<open>success = false\<close> and the message type as its detail, closes nothing,
  and leaves the session registered and unauthenticated.
\<close>

theorem unauthenticated_message_rejected:
  assumes "map_of (clients srv) s = Some cs"
      and "\<not> authenticated cs"
      and "get_property message (js ''type'') = Inr ty"
      and "ty \<noteq> Some (JString (js ''auth''))"
      and "ty \<noteq> Some (JString (js ''ping''))"
  shows "\<exists>w'. message_ws e s (Some message) srv w = Inr (srv, w')
           \<and> sent w' = sent w @
                [(s, \<lparr>msg_type = js ''error'', msg_id = Some (JString (messageId e)),
                      msg_timestamp = now e,
                      msg_data = ErrorPayload (js ''NOT_AUTHENTICATED'')
                                   (Lit (js ''Authentication required''))\<rparr>)]
           \<and> audit w' = audit w @
                [\<lparr>entry_timestamp = now e, clientId = id_client cs @ js ''@'' @ ip cs,
                  action = js ''unauthorized_message'',
                  details = Some [(js ''messageType'', ty)],
                  success = False, error = Some (js ''Not authenticated'')\<rparr>]
           \<and> close_calls w' = close_calls w
           \<and> disk w' = disk w
           \<and> notified w' = notified w
           \<and> session_flag s (srv, w') = Some False"
  using assms
  by (simp add: message_ws_def handleMessage_def sendError_def send_def append_audit_def
      createMessage_def logFailure_def client_label_def session_flag_def)

theorem unauthenticated_message_rejected_witness:
  "map_of (clients example_server) 0 = Some example_client
   \<and> \<not> authenticated example_client
   \<and> get_property status_message (js ''type'') = Inr (Some (JString (js ''status'')))
   \<and> Some (JString (js ''status'')) \<noteq> Some (JString (js ''auth''))
   \<and> Some (JString (js ''status'')) \<noteq> Some (JString (js ''ping''))
   \<and> (\<exists>w'. message_ws example_env 0 (Some status_message) example_server example_world
               = Inr (example_server, w')
          \<and> sent w' =
               [(0, \<lparr>msg_type = js ''error'', msg_id = Some (JString (js ''m1'')),
                     msg_timestamp = 1000,
                     msg_data = ErrorPayload (js ''NOT_AUTHENTICATED'')
                                  (Lit (js ''Authentication required''))\<rparr>)]
          \<and> audit w' =
               [\<lparr>entry_timestamp = 1000, clientId = js ''c1@10.0.0.5'',
                 action = js ''unauthorized_message'',
                 details = Some [(js ''messageType'', Some (JString (js ''status'')))],
                 success = False, error = Some (js ''Not authenticated'')\<rparr>]
          \<and> session_flag 0 (example_server, w') = Some False)"
proof -
  have h1: "map_of (clients example_server) 0 = Some example_client"
    by (simp add: example_server_def)
  have h2: "\<not> authenticated example_client"
    by (simp add: example_client_def)
  have h3: "get_property status_message (js ''type'') = Inr (Some (JString (js ''status'')))"
    by (simp add: status_message_def)
  have h4: "Some (JString (js ''status'')) \<noteq> Some (JString (js ''auth''))"
    by (simp add: js_def)
  have h5: "Some (JString (js ''status'')) \<noteq> Some (JString (js ''ping''))"
    by (simp add: js_def)
  have a: "audit example_world = []" "sent example_world = []"
    by (simp_all add: example_world_def)
  have l: "id_client example_client @ js ''@'' @ ip example_client = js ''c1@10.0.0.5''"
    by (simp add: example_client_def js_def)
  have ev: "messageId example_env = js ''m1''" "now example_env = 1000"
    by (simp_all add: example_env_def)
  from unauthenticated_message_rejected [OF h1 h2 h3 h4 h5, of example_env example_world]
  show ?thesis using h1 h2 h3 h4 h5 a l ev by auto
qed

text \<open>
  Claim C6. The flag of a session is false when the connection opens. Once it is true
  after some events, no continuation without a new connection on that socket makes it
  false: the session is then authenticated or gone. A step takes it from false to true
  only if the step is an \<open>auth\<close> message on that socket whose token validates. An
  \<open>auth\<close> message whose token does not validate, or makes the validation raise,
  leaves the session unauthenticated.
\<close>

theorem authenticated_flag_monotone:
  "session_flag s (step (Open t s data_ip newId) st) = Some False
   \<and> ((\<forall>ev \<in> set evs2. \<not> opens s ev) \<and> session_flag s (run evs1 st) = Some True
        \<longrightarrow> session_flag s (run (evs1 @ evs2) st) \<noteq> Some False)
   \<and> (\<not> opens s ev \<and> session_flag s st = Some False \<and> session_flag s (step ev st) = Some True
        \<longrightarrow> (\<exists>e message tok. ev = Message e s (Some message)
                \<and> get_property message (js ''type'') = Inr (Some (JString (js ''auth'')))
                \<and> get_property message (js ''token'') = Inr (Some (JString tok))
                \<and> validateToken (disk (snd st)) tok))
   \<and> (session_flag s st = Some False
        \<and> get_property message (js ''type'') = Inr (Some (JString (js ''auth'')))
        \<and> get_property message (js ''token'') = Inr tok
        \<and> validateToken_value (disk (snd st)) tok \<noteq> Inr True
        \<longrightarrow> session_flag s (step (Message e s (Some message)) st) = Some False)"
proof (intro conjI impI)
  show "session_flag s (step (Open t s data_ip newId) st) = Some False"
    by (cases st) (simp add: open_ws_flag)
next
  assume "(\<forall>ev \<in> set evs2. \<not> opens s ev) \<and> session_flag s (run evs1 st) = Some True"
  then show "session_flag s (run (evs1 @ evs2) st) \<noteq> Some False"
    using run_keeps_authenticated [of evs2 s "run evs1 st"] by (simp add: run_append)
next
  assume "\<not> opens s ev \<and> session_flag s st = Some False \<and> session_flag s (step ev st) = Some True"
  then show "\<exists>e message tok. ev = Message e s (Some message)
                \<and> get_property message (js ''type'') = Inr (Some (JString (js ''auth'')))
                \<and> get_property message (js ''token'') = Inr (Some (JString tok))
                \<and> validateToken (disk (snd st)) tok"
    using step_flag [of s ev st] by auto
next
  assume "session_flag s st = Some False
        \<and> get_property message (js ''type'') = Inr (Some (JString (js ''auth'')))
        \<and> get_property message (js ''token'') = Inr tok
        \<and> validateToken_value (disk (snd st)) tok \<noteq> Inr True"
  then show "session_flag s (step (Message e s (Some message)) st) = Some False"
    using failed_auth_flag [of s "fst st" "snd st" message tok e] by simp
qed

theorem authenticated_flag_monotone_witness:
  "session_flag 0 (step (Open 5 0 None (js ''c2'')) (example_server, example_world)) = Some False
   \<and> \<not> opens 0 (Message example_env 0 None) \<and> \<not> opens 0 (Close 7 1)
   \<and> session_flag 0 (run [Message example_env 0 (Some (auth_message (js ''secret'')))]
                         (example_server, example_world)) = Some True
   \<and> session_flag 0 (run ([Message example_env 0 (Some (auth_message (js ''secret'')))]
                           @ [Message example_env 0 None, Close 7 1])
                         (example_server, example_world)) \<noteq> Some False
   \<and> \<not> opens 0 (Message example_env 0 (Some (auth_message (js ''secret''))))
   \<and> session_flag 0 (example_server, example_world) = Some False
   \<and> session_flag 0 (step (Message example_env 0 (Some (auth_message (js ''secret''))))
                         (example_server, example_world)) = Some True
   \<and> validateToken_value (disk (snd (example_server, example_world))) (Some (JString (js ''wrong'')))
        \<noteq> Inr True
   \<and> session_flag 0 (step (Message example_env 0 (Some (auth_message (js ''wrong''))))
                         (example_server, example_world)) = Some False"
  using authenticated_flag_monotone
    [of 0 5 None "js ''c2''" "(example_server, example_world)"
        "[Message example_env 0 None, Close 7 1]"
        "[Message example_env 0 (Some (auth_message (js ''secret'')))]"
        "Message example_env 0 (Some (auth_message (js ''secret'')))"
        "auth_message (js ''wrong'')" "Some (JString (js ''wrong''))" example_env]
  by (simp add: example_defs handler_defs validateToken_Some session_flag_def js_def)

text \<open>
  Claim C7, as stated: every frame that fails to parse as the envelope structure is
  answered with \<open>INVALID_JSON\<close>. It is not: the frame \<open>{}\<close> is valid JSON without
  the fields of an envelope, and an unauthenticated session is answered with
  \<open>NOT_AUTHENTICATED\<close>; on the frame \<open>null\<close> the handler raises a TypeError and
  answers nothing.
\<close>

theorem valid_json_not_envelope_counterexample:
  "map (\<lambda>(s, m). msg_data m)
     (sent (snd (step (Message example_env 0 (Some (JObject []))) (example_server, example_world))))
     = [ErrorPayload (js ''NOT_AUTHENTICATED'') (Lit (js ''Authentication required''))]
   \<and> message_ws example_env 0 (Some JNull) example_server example_world = Inl TypeError"
  by (simp add: example_defs handler_defs js_def)

text \<open>
  Claim C7, amended: for every session in any state and every frame that is not valid
  JSON (\<open>JSON.parse\<close> throws), the server sends one \<open>error\<close> message with code
  \<open>INVALID_JSON\<close>, appends the audit entry of the parse failure, closes nothing and
  leaves the registry as it was.
\<close>

theorem invalid_json_answered:
  "\<exists>w'. handleMessage e s cs None srv w = Inr (srv, w')
         \<and> sent w' = sent w @
              [(s, \<lparr>msg_type = js ''error'', msg_id = Some (JString (messageId e)),
                    msg_timestamp = now e,
                    msg_data = ErrorPayload (js ''INVALID_JSON'')
                                 (Lit (js ''Invalid JSON message''))\<rparr>)]
         \<and> audit w' = audit w @
              [\<lparr>entry_timestamp = now e, clientId = id_client cs @ js ''@'' @ ip cs,
                action = js ''message_parse'', details = None,
                success = False, error = Some (js ''Invalid JSON'')\<rparr>]
         \<and> close_calls w' = close_calls w
         \<and> disk w' = disk w
         \<and> notified w' = notified w"
  by (simp add: handleMessage_def sendError_def send_def append_audit_def createMessage_def
      logFailure_def client_label_def)

text \<open>
  Claim C9. For a registered session in any state and a \<open>ping\<close> message, the server
  sends, in the same call, one \<open>pong\<close> message whose \<open>id\<close> is the \<open>id\<close> of
  the request, and changes nothing else: the registry, the audit log and the credential
  file are as before.
\<close>

theorem ping_answered_with_same_id:
  assumes "map_of (clients srv) s = Some cs"
      and "map_of props (js ''type'') = Some (JString (js ''ping''))"
  shows "message_ws e s (Some (JObject props)) srv w =
           Inr (srv, w\<lparr>sent := sent w @
                  [(s, \<lparr>msg_type = js ''pong'', msg_id = map_of props (js ''id''),
                        msg_timestamp = now e, msg_data = Pong\<rparr>)]\<rparr>)"
  using assms js_auth_ne_ping
  by (auto simp: message_ws_def handleMessage_def sendPong_def send_def createMessage_def)

theorem ping_answered_with_same_id_witness:
  "map_of (clients example_server) 0 = Some example_client
   \<and> map_of [(js ''type'', JString (js ''ping'')), (js ''id'', JString (js ''p7''))] (js ''type'')
        = Some (JString (js ''ping''))
   \<and> map (\<lambda>(s, m). (s, msg_type m, msg_id m))
        (sent (snd (step (Message example_env 0 (Some (ping_message (js ''p7''))))
                      (example_server, example_world))))
        = [(0, js ''pong'', Some (JString (js ''p7'')))]"
proof -
  have h1: "map_of (clients example_server) 0 = Some example_client"
    by (simp add: example_server_def)
  have h2: "map_of [(js ''type'', JString (js ''ping'')), (js ''id'', JString (js ''p7''))] (js ''type'')
        = Some (JString (js ''ping''))"
    by simp
  have s0: "sent example_world = []" by (simp add: example_world_def)
  from ping_answered_with_same_id [OF h1 h2, of example_env example_world]
  show ?thesis using h1 h2 s0 by (simp add: ping_message_def js_def)
qed

text \<open>
  Claim C10. On a running server \<open>stop\<close> calls \<open>close\<close> on every registered
  socket, which makes the server log the disconnect of each session, leaves the
  registry empty, releases the listening socket and appends a stop event to the audit
  log after the disconnects. On a server that is not running it changes nothing; in
  particular a second call right after the first changes nothing. \<open>stop\<close> has no
  error result. The registry is a \<open>Map\<close>, each socket once.
\<close>

theorem stop_idempotent:
  "(server srv \<noteq> None \<and> distinct (map fst (clients srv)) \<longrightarrow>
      (\<exists>srv' w'. stop t srv w = (srv', w')
         \<and> clients srv' = [] \<and> server srv' = None
         \<and> options srv' = options srv \<and> startedAt srv' = startedAt srv
         \<and> close_calls w' = close_calls w @ map fst (clients srv)
         \<and> audit w' = audit w @
              map (\<lambda>(s, cs). \<lparr>entry_timestamp = t, clientId = id_client cs @ js ''@'' @ ip cs,
                               action = js ''disconnect'', details = None,
                               success = True, error = None\<rparr>) (clients srv)
              @ [\<lparr>entry_timestamp = t, clientId = js ''server'', action = js ''stop'',
                   details = None, success = True, error = None\<rparr>]
         \<and> sent w' = sent w \<and> disk w' = disk w))
   \<and> (server srv = None \<longrightarrow> stop t srv w = (srv, w))
   \<and> (case stop t srv w of (srv', w') \<Rightarrow> stop t2 srv' w' = (srv', w'))"
proof (intro conjI impI)
  assume a: "server srv \<noteq> None \<and> distinct (map fst (clients srv))"
  then have d: "distinct (map fst (clients srv))" by simp
  have entries:
    "map (\<lambda>(s, cs). logConnection t (client_label cs) (js ''disconnect'')) (clients srv) =
     map (\<lambda>(s, cs). \<lparr>entry_timestamp = t, clientId = id_client cs @ js ''@'' @ ip cs,
                      action = js ''disconnect'', details = None,
                      success = True, error = None\<rparr>) (clients srv)"
    by (simp add: logConnection_def client_label_def)
  show "\<exists>srv' w'. stop t srv w = (srv', w')
         \<and> clients srv' = [] \<and> server srv' = None
         \<and> options srv' = options srv \<and> startedAt srv' = startedAt srv
         \<and> close_calls w' = close_calls w @ map fst (clients srv)
         \<and> audit w' = audit w @
              map (\<lambda>(s, cs). \<lparr>entry_timestamp = t, clientId = id_client cs @ js ''@'' @ ip cs,
                               action = js ''disconnect'', details = None,
                               success = True, error = None\<rparr>) (clients srv)
              @ [\<lparr>entry_timestamp = t, clientId = js ''server'', action = js ''stop'',
                   details = None, success = True, error = None\<rparr>]
         \<and> sent w' = sent w \<and> disk w' = disk w"
    using a entries
    by (simp add: stop_def Let_def close_all_registry [OF d refl] append_audit_def notify_def
        logServerEvent_def)
next
  assume "server srv = None"
  then show "stop t srv w = (srv, w)" by (simp add: stop_def)
next
  show "case stop t srv w of (srv', w') \<Rightarrow> stop t2 srv' w' = (srv', w')"
    by (auto simp: stop_def Let_def split: prod.splits)
qed

theorem stop_idempotent_witness:
  "server example_server \<noteq> None
   \<and> distinct (map fst (clients example_server))
   \<and> clients (fst (stop 9 example_server example_world)) = []
   \<and> server (fst (stop 9 example_server example_world)) = None
   \<and> close_calls (snd (stop 9 example_server example_world)) = [0]
   \<and> audit (snd (stop 9 example_server example_world)) =
        [\<lparr>entry_timestamp = 9, clientId = js ''c1@10.0.0.5'', action = js ''disconnect'',
          details = None, success = True, error = None\<rparr>,
         \<lparr>entry_timestamp = 9, clientId = js ''server'', action = js ''stop'',
          details = None, success = True, error = None\<rparr>]
   \<and> server (fst (stop 9 example_server example_world)) = None
   \<and> stop 10 (fst (stop 9 example_server example_world)) (snd (stop 9 example_server example_world))
       = stop 9 example_server example_world"
proof -
  have h: "server example_server \<noteq> None \<and> distinct (map fst (clients example_server))"
    by (simp add: example_server_def)
  have c: "clients example_server = [(0, example_client)]"
    by (simp add: example_server_def)
  have l: "id_client example_client @ js ''@'' @ ip example_client = js ''c1@10.0.0.5''"
    by (simp add: example_client_def js_def)
  have w0: "audit example_world = []" "close_calls example_world = []"
    by (simp_all add: example_world_def)
  from stop_idempotent [of example_server 9 example_world 10]
  show ?thesis using h c l w0 by (auto split: prod.splits)
qed

end
